theory Spec2Isabelle
  imports Main
begin

section \<open>The PUT proxy of \<open>src/proxy/PUT.go\<close>\<close>

text \<open>
  The handler \<open>PUT\<close> receives a client request, forwards it to a backend service in one of
  three pipelines (\<open>jsonPUT\<close>, \<open>xmlPUT\<close>, \<open>rawPUT\<close>) and relays the answer. Everything the
  Go code does to its surroundings is made explicit here: the response writer, the log, the
  requests handed to the HTTP client and the reads and closes of the two body streams are
  fields of a state that every function takes and returns.
\<close>

subsection \<open>Values, errors, headers\<close>

type_synonym bytes = string

text \<open>A Go \<open>error\<close> value that is not nil; \<open>err.Error()\<close> is its message. A variable of type
  \<open>error\<close> is an \<open>error option\<close>, with \<open>None\<close> for nil.\<close>

datatype error = Error string

fun Error_msg :: "error \<Rightarrow> string" where
  "Error_msg (Error m) = m"

text \<open>What an \<open>interface{}\<close> holds in this file: the trees produced by the decoders, the map
  literal of \<open>invalidPUT\<close> and the error value stored in it.\<close>

datatype gvalue =
    GNil
  | GBool bool
  | GInt int
  | GStr string
  | GErr error
  | GArr "gvalue list"
  | GObj "(string \<times> gvalue) list"

text \<open>\<open>http.Header\<close> is a \<open>map[string][]string\<close>. Keys are the canonical header names, as
  the server delivers them and as the literals of the source are written.\<close>

type_synonym header = "string \<rightharpoonup> string list"

definition Header_Get :: "header \<Rightarrow> string \<Rightarrow> string" where
  "Header_Get h k = (case h k of Some (v # vs) \<Rightarrow> v | _ \<Rightarrow> [])"

definition Header_Set :: "header \<Rightarrow> string \<Rightarrow> string \<Rightarrow> header" where
  "Header_Set h k v = h(k \<mapsto> [v])"

text \<open>The loop \<open>for k, vs := range r.Header { req.Header[k] = make(...); copy(req.Header[k], vs) }\<close>:
  every key of the inbound header gets a fresh copy of its value list, in the same order;
  keys of the target that the inbound header lacks stay as they are.\<close>

definition copy_headers :: "header \<Rightarrow> header \<Rightarrow> header" where
  "copy_headers src dst = (\<lambda>k. case src k of Some vs \<Rightarrow> Some vs | None \<Rightarrow> dst k)"

definition StatusOK :: nat where "StatusOK = 200"
definition StatusFound :: nat where "StatusFound = 302"
definition StatusUnprocessableEntity :: nat where "StatusUnprocessableEntity = 422"
definition StatusBadGateway :: nat where "StatusBadGateway = 502"

subsection \<open>The response writer\<close>

text \<open>
  \<open>http.ResponseWriter\<close>, as the server of \<open>net/http\<close> implements it. \<open>hdr\<close> is the map
  behind \<open>w.Header()\<close>; \<open>status\<close> is the status line sent to the client, \<open>sent_hdr\<close> the
  headers sent with it (the map as it was at that moment); \<open>body\<close> holds the bytes
  written; \<open>broken\<close>, when set, is the error every \<open>Write\<close> returns.

  \<open>WriteHeader\<close>: once a status line has been sent, a further call is dropped and recorded
  in \<open>superfluous\<close>. The first call passes its code through \<open>checkWriteHeaderCode\<close>, which
  panics for a code below 100 or above 999 (the result \<open>None\<close>), and then sends the status
  line. A code from 100 to 199 is sent as the status line like any other.

  \<open>Write\<close>: when no status line has been sent, the writer first sends 200 by itself. An
  empty write succeeds; bytes after a status line that allows no body (1xx, 204, 304) are
  refused with \<open>ErrBodyNotAllowed\<close>; other bytes are appended, all or nothing.
\<close>

record ResponseWriter =
  hdr :: header
  status :: "nat option"
  sent_hdr :: header
  superfluous :: "nat list"
  body :: bytes
  broken :: "error option"

definition w_Header_Set :: "string \<Rightarrow> string \<Rightarrow> ResponseWriter \<Rightarrow> ResponseWriter" where
  "w_Header_Set k v w = w\<lparr>hdr := Header_Set (hdr w) k v\<rparr>"

definition checkWriteHeaderCode :: "nat \<Rightarrow> bool" where
  "checkWriteHeaderCode code = (100 \<le> code \<and> code \<le> 999)"

definition send_status :: "nat \<Rightarrow> ResponseWriter \<Rightarrow> ResponseWriter" where
  "send_status code w =
     (if status w = None then w\<lparr>status := Some code, sent_hdr := hdr w\<rparr>
      else w\<lparr>superfluous := superfluous w @ [code]\<rparr>)"

definition WriteHeader :: "nat \<Rightarrow> ResponseWriter \<Rightarrow> ResponseWriter option" where
  "WriteHeader code w =
     (if status w = None \<and> \<not> checkWriteHeaderCode code then None
      else Some (send_status code w))"

definition bodyAllowedForStatus :: "nat \<Rightarrow> bool" where
  "bodyAllowedForStatus code =
     (\<not> (100 \<le> code \<and> code \<le> 199) \<and> code \<noteq> 204 \<and> code \<noteq> 304)"

definition ErrBodyNotAllowed :: error where
  "ErrBodyNotAllowed = Error ''http: request method or response status code does not allow body''"

definition Write :: "bytes \<Rightarrow> ResponseWriter \<Rightarrow> ResponseWriter \<times> error option" where
  "Write b w =
     (let w1 = (if status w = None then send_status StatusOK w else w)
      in case broken w1 of
           Some e \<Rightarrow> (w1, Some e)
         | None \<Rightarrow>
             if b = [] then (w1, None)
             else if (case status w1 of Some code \<Rightarrow> \<not> bodyAllowedForStatus code | None \<Rightarrow> False)
               then (w1, Some ErrBodyNotAllowed)
             else (w1\<lparr>body := body w1 @ b\<rparr>, None))"

subsection \<open>Requests, responses, the state\<close>

text \<open>The inbound request: its headers, the bytes its body stream yields, the error the
  stream ends with instead of EOF (if any), and the error \<open>r.Body.Close()\<close> returns (if any).\<close>

record Request =
  r_Header :: header
  r_Body :: bytes
  r_Body_err :: "error option"
  r_Close_err :: "error option"

text \<open>The request built by \<open>http.NewRequest\<close> and handed to \<open>client.Do\<close>; \<open>q_NoFollow\<close> tells
  whether the client was built with the \<open>CheckRedirect\<close> that returns \<open>ErrUseLastResponse\<close>.\<close>

record BackendRequest =
  q_Method :: string
  q_URL :: string
  q_Header :: header
  q_Body :: bytes
  q_NoFollow :: bool

record Response =
  StatusCode :: nat
  resp_Header :: header
  resp_Body :: bytes
  resp_Body_err :: "error option"

datatype level = DEBUG | WARN | ERR

text \<open>Modelled from the spec: the package \<open>logger\<close> is not among the sources; the logging
  sink "accepts (severity, message) pairs" and "raw response objects for debug-level
  dumps", and the engine never depends on its return value. A dump is recorded by the
  status code of the response, or \<open>None\<close> for a nil response.\<close>

datatype log_event = LogMsg level string | LogRespDump level "nat option"

record world =
  wr :: ResponseWriter
  logs :: "log_event list"
  sent :: "BackendRequest list"
  req_consumed :: "nat option"
  req_closed :: bool
  resp_read :: bool
  resp_closed :: bool

datatype exit = Returned | Panicked

definition logger_Log :: "level \<Rightarrow> string \<Rightarrow> world \<Rightarrow> world" where
  "logger_Log l m s = s\<lparr>logs := logs s @ [LogMsg l m]\<rparr>"

definition logger_LogResp :: "level \<Rightarrow> error + Response \<Rightarrow> world \<Rightarrow> world" where
  "logger_LogResp l res s =
     s\<lparr>logs := logs s @ [LogRespDump l (case res of Inl e \<Rightarrow> None | Inr resp \<Rightarrow> Some (StatusCode resp))]\<rparr>"

text \<open>A panic in a callee ends the caller where it stands; a deferred
  \<open>resp.Body.Close()\<close> runs when its function returns and also when it panics.\<close>

definition and_then :: "exit \<times> world \<Rightarrow> (world \<Rightarrow> exit \<times> world) \<Rightarrow> exit \<times> world" where
  "and_then x k = (case x of (Returned, s) \<Rightarrow> k s | (Panicked, s) \<Rightarrow> (Panicked, s))"

definition deferred_Close :: "exit \<times> world \<Rightarrow> exit \<times> world" where
  "deferred_Close x = (fst x, (snd x)\<lparr>resp_closed := True\<rparr>)"

subsection \<open>What the file uses and does not define\<close>

text \<open>
  The package constants \<open>MaxRequestSize\<close>, \<open>MaxFileUploadSize\<close>, \<open>JSONHeader\<close>, \<open>XMLHeader\<close>,
  the helpers \<open>requestPreprocessing\<close>, \<open>invalidPOST\<close> and \<open>notifyClientOfRequestError\<close> of
  the same package, and the library calls (\<open>encoding/json\<close>, \<open>encoding/xml\<close>,
  \<open>http.NewRequest\<close>, \<open>client.Do\<close>, \<open>http.StatusText\<close>) are parameters. The helpers receive
  the response writer and act on it alone. \<open>Unmarshal\<close> returns the value left in its
  target (which starts nil) together with its error; \<open>Marshal\<close> and \<open>client.Do\<close> return
  either an error or a result, the code never using the result beside an error.
  The timeout of the client is real time and has no counterpart here.
\<close>

record env =
  MaxRequestSize :: int
  MaxFileUploadSize :: int
  JSONHeader :: string
  XMLHeader :: string
  requestPreprocessing :: "ResponseWriter \<Rightarrow> Request \<Rightarrow> ResponseWriter \<times> error option"
  invalidPOST :: "ResponseWriter \<Rightarrow> error option \<Rightarrow> ResponseWriter"
  notifyClientOfRequestError :: "ResponseWriter \<Rightarrow> nat \<Rightarrow> string \<Rightarrow> ResponseWriter"
  json_Unmarshal :: "bytes \<Rightarrow> gvalue \<times> error option"
  xml_Unmarshal :: "bytes \<Rightarrow> gvalue \<times> error option"
  json_Marshal :: "gvalue \<Rightarrow> error + bytes"
  xml_Marshal :: "gvalue \<Rightarrow> error + bytes"
  NewRequest_ok :: "string \<Rightarrow> bool"
  client_Do :: "BackendRequest \<Rightarrow> error + Response"
  StatusText :: "nat \<Rightarrow> string"

text \<open>\<open>json.NewEncoder(w).Encode(v)\<close>: marshal, append a newline, write; nothing is written
  when marshalling fails.\<close>

definition Encode :: "env \<Rightarrow> gvalue \<Rightarrow> ResponseWriter \<Rightarrow> ResponseWriter \<times> error option" where
  "Encode env v w =
     (case json_Marshal env v of
        Inl e \<Rightarrow> (w, Some e)
      | Inr b \<Rightarrow> Write (b @ [CHR 0x0A]) w)"

text \<open>\<open>ioutil.ReadAll(io.LimitReader(r.Body, n))\<close>: the limit reader reports EOF by itself
  once \<open>n\<close> bytes are out (at once when \<open>n \<le> 0\<close>); a shorter stream ends with its own EOF
  or error.\<close>

definition ReadAll_LimitReader :: "Request \<Rightarrow> int \<Rightarrow> bytes \<times> error option" where
  "ReadAll_LimitReader r n =
     (if n \<le> int (length (r_Body r)) then (take (nat n) (r_Body r), None)
      else (r_Body r, r_Body_err r))"

definition ReadAll_resp :: "Response \<Rightarrow> bytes \<times> error option" where
  "ReadAll_resp resp = (resp_Body resp, resp_Body_err resp)"

definition error_value :: "error option \<Rightarrow> gvalue" where
  "error_value err = (case err of None \<Rightarrow> GNil | Some e \<Rightarrow> GErr e)"

subsection \<open>\<open>invalidPUT\<close> and \<open>unsuccessfulPUT\<close>\<close>

text \<open>The closing lines shared by both functions:
  \<open>if err := json.NewEncoder(w).Encode(data); err != nil { logger.Log(...); notifyClientOfRequestError(w, http.StatusBadGateway, "") }\<close>.\<close>

definition encode_or_notify :: "env \<Rightarrow> gvalue \<Rightarrow> world \<Rightarrow> world" where
  "encode_or_notify env data s =
     (case Encode env data (wr s) of
        (w1, None) \<Rightarrow> s\<lparr>wr := w1\<rparr>
      | (w1, Some e) \<Rightarrow>
          (logger_Log ERR (Error_msg e) s)
            \<lparr>wr := notifyClientOfRequestError env w1 StatusBadGateway []\<rparr>)"

definition invalidPUT_data :: "error option \<Rightarrow> gvalue" where
  "invalidPUT_data err =
     GObj [(''Code'', GInt (int StatusUnprocessableEntity)),
           (''Text'', GStr ''Unprocessable Entity''),
           (''Specfically'', error_value err)]"

definition invalidPUT :: "env \<Rightarrow> world \<Rightarrow> error option \<Rightarrow> exit \<times> world" where
  "invalidPUT env s err =
     (let w1 = w_Header_Set ''Content-Type'' ''application/json; charset=UTF-8'' (wr s)
      in case WriteHeader StatusUnprocessableEntity w1 of
           None \<Rightarrow> (Panicked, s\<lparr>wr := w1\<rparr>)
         | Some w2 \<Rightarrow> (Returned, encode_or_notify env (invalidPUT_data err) (s\<lparr>wr := w2\<rparr>)))"

definition unsuccessfulPUT :: "env \<Rightarrow> world \<Rightarrow> string \<Rightarrow> bytes \<Rightarrow> error option \<Rightarrow> world" where
  "unsuccessfulPUT env s format content err =
     (if format = ''JSON'' then encode_or_notify env (fst (json_Unmarshal env content)) s
      else if format = ''XML'' then encode_or_notify env (fst (xml_Unmarshal env content)) s
      else s\<lparr>wr := fst (Write content (wr s))\<rparr>)"

subsection \<open>The three pipelines\<close>

text \<open>
  \<open>http.NewRequest\<close> returns a nil request with its error, and none of the pipelines
  looks at that error: the next use of \<open>req\<close> (\<open>req.Header\<close> in the copy loop or in
  \<open>Set\<close>, \<open>req.URL\<close> inside \<open>client.Do\<close>) dereferences nil and the handler panics.
  \<open>w.WriteHeader(resp.StatusCode)\<close> hands the writer whatever code the backend sent.
  \<open>defer resp.Body.Close()\<close> takes effect on every exit after the line that holds it.
\<close>

text \<open>The request each pipeline builds between \<open>http.NewRequest\<close> and \<open>client.Do\<close>,
  statement by statement: \<open>jsonPUT\<close> copies the inbound headers and then sets
  \<open>Content-Type\<close>; \<open>xmlPUT\<close> sets \<open>Content-Type\<close> and then copies; \<open>rawPUT\<close> only copies;
  all three then set \<open>Authorization\<close> when the token is not empty.\<close>

definition jsonPUT_request :: "env \<Rightarrow> Request \<Rightarrow> string \<Rightarrow> string \<Rightarrow> bytes \<Rightarrow> BackendRequest" where
  "jsonPUT_request env r url token content =
     (let h1 = copy_headers (r_Header r) Map.empty;
          h2 = Header_Set h1 ''Content-Type'' (JSONHeader env);
          h3 = (if token \<noteq> [] then Header_Set h2 ''Authorization'' token else h2)
      in \<lparr>q_Method = ''PUT'', q_URL = url, q_Header = h3, q_Body = content, q_NoFollow = True\<rparr>)"

definition xmlPUT_request :: "env \<Rightarrow> Request \<Rightarrow> string \<Rightarrow> string \<Rightarrow> bytes \<Rightarrow> BackendRequest" where
  "xmlPUT_request env r url token content =
     (let h1 = Header_Set Map.empty ''Content-Type'' (XMLHeader env);
          h2 = copy_headers (r_Header r) h1;
          h3 = (if token \<noteq> [] then Header_Set h2 ''Authorization'' token else h2)
      in \<lparr>q_Method = ''PUT'', q_URL = url, q_Header = h3, q_Body = content, q_NoFollow = True\<rparr>)"

definition rawPUT_request :: "Request \<Rightarrow> string \<Rightarrow> string \<Rightarrow> bytes \<Rightarrow> BackendRequest" where
  "rawPUT_request r url token content =
     (let h1 = copy_headers (r_Header r) Map.empty;
          h2 = (if token \<noteq> [] then Header_Set h1 ''Authorization'' token else h1)
      in \<lparr>q_Method = ''PUT'', q_URL = url, q_Header = h2, q_Body = content, q_NoFollow = False\<rparr>)"

definition jsonPUT :: "env \<Rightarrow> Request \<Rightarrow> world \<Rightarrow> string \<Rightarrow> string \<Rightarrow> gvalue \<Rightarrow> exit \<times> world" where
  "jsonPUT env r s url token data =
     (case json_Marshal env data of
        Inl err \<Rightarrow>
          (Returned, logger_Log ERR (Error_msg err) (s\<lparr>wr := invalidPOST env (wr s) (Some err)\<rparr>))
      | Inr content \<Rightarrow>
          if \<not> NewRequest_ok env url then (Panicked, s)
          else
            let req = jsonPUT_request env r url token content;
                res = client_Do env req;
                s1 = logger_LogResp DEBUG res (s\<lparr>sent := sent s @ [req]\<rparr>)
            in case res of
                 Inl err \<Rightarrow>
                   and_then (invalidPUT env s1 (Some err))
                     (\<lambda>s'. (Returned, logger_Log ERR (Error_msg err) s'))
               | Inr resp \<Rightarrow>
                   if StatusCode resp = StatusFound then
                     let s2 = logger_Log DEBUG ''Service Returned Redirect'' s1;
                         w1 = w_Header_Set ''Location'' (Header_Get (resp_Header resp) ''Location'') (wr s2)
                     in case WriteHeader StatusFound w1 of
                          None \<Rightarrow> (Panicked, s2\<lparr>wr := w1\<rparr>)
                        | Some w2 \<Rightarrow> (Returned, s2\<lparr>wr := w2\<rparr>)
                   else if StatusCode resp \<noteq> StatusOK then
                     let s2 = logger_Log WARN
                                (''SERVICE FAILED - SERVICE RETURNED STATUS '' @ StatusText env (StatusCode resp)) s1;
                         w1 = w_Header_Set ''Content-Type'' ''application/json; charset=UTF-8'' (wr s2)
                     in case WriteHeader (StatusCode resp) w1 of
                          None \<Rightarrow> (Panicked, s2\<lparr>wr := w1\<rparr>)
                        | Some w2 \<Rightarrow>
                            let (content, readErr) = ReadAll_resp resp;
                                s3 = s2\<lparr>wr := w2, resp_read := True\<rparr>
                            in (Returned, unsuccessfulPUT env s3 ''JSON'' content readErr)
                   else
                     deferred_Close
                       (let (contents, rerr) = ReadAll_resp resp;
                            s2 = s1\<lparr>resp_read := True\<rparr>;
                            (serverData, err) = json_Unmarshal env contents
                        in case err of
                             Some e \<Rightarrow>
                               and_then (invalidPUT env s2 err)
                                 (\<lambda>s'. (Returned, logger_Log ERR (''Failed to decode:'' @ Error_msg e) s'))
                           | None \<Rightarrow>
                               let w1 = w_Header_Set ''Content-Type'' (JSONHeader env) (wr s2)
                               in case Encode env serverData w1 of
                                    (w2, Some e) \<Rightarrow>
                                      and_then (invalidPUT env (s2\<lparr>wr := w2\<rparr>) (Some e))
                                        (\<lambda>s'. (Returned,
                                               logger_Log ERR (''Failed to encode:'' @ Error_msg e) s'))
                                  | (w2, None) \<Rightarrow> (Returned, s2\<lparr>wr := w2\<rparr>)))"

definition xmlPUT :: "env \<Rightarrow> Request \<Rightarrow> world \<Rightarrow> string \<Rightarrow> string \<Rightarrow> gvalue \<Rightarrow> exit \<times> world" where
  "xmlPUT env r s url token data =
     (case xml_Marshal env data of
        Inl err \<Rightarrow>
          and_then (invalidPUT env s (Some err))
            (\<lambda>s'. (Returned, logger_Log ERR (Error_msg err) s'))
      | Inr content \<Rightarrow>
          if \<not> NewRequest_ok env url then (Panicked, s)
          else
            let req = xmlPUT_request env r url token content;
                res = client_Do env req;
                s1 = logger_LogResp DEBUG res (s\<lparr>sent := sent s @ [req]\<rparr>)
            in case res of
                 Inl err \<Rightarrow>
                   and_then (invalidPUT env s1 (Some err))
                     (\<lambda>s'. (Returned, logger_Log ERR (Error_msg err) s'))
               | Inr resp \<Rightarrow>
                   if StatusCode resp = StatusFound then
                     let s2 = logger_Log DEBUG ''Service Returned Redirect'' s1;
                         w1 = w_Header_Set ''Location'' (Header_Get (resp_Header resp) ''Location'') (wr s2)
                     in case WriteHeader StatusFound w1 of
                          None \<Rightarrow> (Panicked, s2\<lparr>wr := w1\<rparr>)
                        | Some w2 \<Rightarrow> (Returned, s2\<lparr>wr := w2\<rparr>)
                   else if StatusCode resp \<noteq> StatusOK then
                     let s2 = logger_Log WARN
                                (''SERVICE FAILED - SERVICE RETURNED STATUS '' @ StatusText env (StatusCode resp)) s1;
                         w1 = w_Header_Set ''Content-Type'' (XMLHeader env) (wr s2)
                     in case WriteHeader (StatusCode resp) w1 of
                          None \<Rightarrow> (Panicked, s2\<lparr>wr := w1\<rparr>)
                        | Some w2 \<Rightarrow>
                            let (contents, readErr) = ReadAll_resp resp;
                                s3 = s2\<lparr>wr := w2, resp_read := True\<rparr>
                            in (Returned, unsuccessfulPUT env s3 ''XML'' contents readErr)
                   else
                     deferred_Close
                       (let (contents, rerr) = ReadAll_resp resp;
                            s2 = s1\<lparr>resp_read := True\<rparr>;
                            (serverData, err) = xml_Unmarshal env contents
                        in case err of
                             Some e \<Rightarrow>
                               and_then (invalidPUT env s2 err)
                                 (\<lambda>s'. (Returned, logger_Log ERR (''Failed decode:'' @ Error_msg e) s'))
                           | None \<Rightarrow>
                               let w1 = w_Header_Set ''Content-Type'' (JSONHeader env) (wr s2)
                               in case Encode env serverData w1 of
                                    (w2, Some e) \<Rightarrow>
                                      and_then (invalidPUT env (s2\<lparr>wr := w2\<rparr>) (Some e))
                                        (\<lambda>s'. (Returned,
                                               logger_Log ERR (''Failed encode:'' @ Error_msg e) s'))
                                  | (w2, None) \<Rightarrow>
                                      (case WriteHeader StatusOK w2 of
                                         None \<Rightarrow> (Panicked, s2\<lparr>wr := w2\<rparr>)
                                       | Some w3 \<Rightarrow> (Returned, s2\<lparr>wr := w3\<rparr>))))"

text \<open>Lines 318 to 336 of \<open>rawPUT\<close>: the relay of the backend's body, reached from the 200
  answer directly and from any other answer after lines 312 to 316 have written its
  status, that branch having no \<open>return\<close>.\<close>

definition rawPUT_relay :: "env \<Rightarrow> Response \<Rightarrow> world \<Rightarrow> exit \<times> world" where
  "rawPUT_relay env resp s2 =
     deferred_Close
       (let (contents, rerr) = ReadAll_resp resp;
            s3 = s2\<lparr>resp_read := True\<rparr>
        in case rerr of
             Some e \<Rightarrow>
               and_then (invalidPUT env s3 rerr)
                 (\<lambda>s'. (Returned, logger_Log ERR (Error_msg e) s'))
           | None \<Rightarrow>
               let w1 = w_Header_Set ''Content-Type''
                          (Header_Get (resp_Header resp) ''Content-Type'') (wr s3)
               in case Write contents w1 of
                    (w2, Some e) \<Rightarrow>
                      and_then (invalidPUT env (s3\<lparr>wr := w2\<rparr>) (Some e))
                        (\<lambda>s'. (Returned, logger_Log ERR (''Failed to Write:'' @ Error_msg e) s'))
                  | (w2, None) \<Rightarrow> (Returned, s3\<lparr>wr := w2\<rparr>))"

definition rawPUT :: "env \<Rightarrow> Request \<Rightarrow> world \<Rightarrow> string \<Rightarrow> string \<Rightarrow> exit \<times> world" where
  "rawPUT env r s url token =
     (let (content, err) = ReadAll_LimitReader r (MaxFileUploadSize env);
          s0 = s\<lparr>req_consumed := Some (length content)\<rparr>
      in case err of
           Some e \<Rightarrow>
             and_then (invalidPUT env s0 err) (\<lambda>s'. (Returned, logger_Log ERR (Error_msg e) s'))
         | None \<Rightarrow>
            (case r_Close_err r of
               Some e \<Rightarrow>
                 and_then (invalidPUT env (s0\<lparr>req_closed := True\<rparr>) (Some e))
                   (\<lambda>s'. (Returned, logger_Log ERR (''Failed Reception:'' @ Error_msg e) s'))
             | None \<Rightarrow>
                 let sc = s0\<lparr>req_closed := True\<rparr>
                 in if \<not> NewRequest_ok env url then (Panicked, sc)
                    else
                      let req = rawPUT_request r url token content;
                          res = client_Do env req;
                          s1 = logger_LogResp DEBUG res (sc\<lparr>sent := sent sc @ [req]\<rparr>)
                      in case res of
                           Inl e \<Rightarrow>
                             and_then (invalidPUT env s1 (Some e))
                               (\<lambda>s'. (Returned, logger_Log ERR (Error_msg e) s'))
                         | Inr resp \<Rightarrow>
                             if StatusCode resp \<noteq> StatusOK then
                               let sl = logger_Log WARN
                                          (''SERVICE FAILED - SERVICE RETURNED STATUS ''
                                             @ StatusText env (StatusCode resp)) s1;
                                   w1 = w_Header_Set ''Content-Type''
                                          ''application/json; charset=UTF-8'' (wr sl)
                               in case WriteHeader (StatusCode resp) w1 of
                                    None \<Rightarrow> (Panicked, sl\<lparr>wr := w1\<rparr>)
                                  | Some w2 \<Rightarrow> rawPUT_relay env resp (sl\<lparr>wr := w2\<rparr>)
                             else rawPUT_relay env resp s1))"

subsection \<open>The handler\<close>

text \<open>Lines 41 to 48: the three CORS headers, set when the request has an \<open>Origin\<close>.\<close>

definition origin_headers :: "Request \<Rightarrow> ResponseWriter \<Rightarrow> ResponseWriter" where
  "origin_headers r w =
     (let origin = Header_Get (r_Header r) ''Origin''
      in if origin \<noteq> [] then
           w_Header_Set ''Access-Control-Allow-Headers''
             ''Accept, Content-Type, Content-Length, Accept-Encoding, X-CSRF-Token, Authorization''
             (w_Header_Set ''Access-Control-Allow-Methods'' ''PUT''
               (w_Header_Set ''Access-Control-Allow-Origin'' origin w))
         else w)"

text \<open>The last arm of the \<open>switch\<close> is kept as the source has it; \<open>err\<close> is nil there, the
  decoding having succeeded.\<close>

definition PUT :: "env \<Rightarrow> world \<Rightarrow> string \<Rightarrow> string \<Rightarrow> string \<Rightarrow> Request \<Rightarrow> exit \<times> world" where
  "PUT env s url format token r =
     (let w0 = origin_headers r (wr s);
          (w1, preprocessing_err) = requestPreprocessing env w0 r;
          s1 = s\<lparr>wr := w1\<rparr>
      in if preprocessing_err \<noteq> None then (Returned, s1)
         else if format = ''RAW'' then rawPUT env r s1 url token
         else if format \<noteq> ''XML'' \<and> format \<noteq> ''JSON'' then
           (let err = Error ''Unsupported data encoding''
            in and_then (invalidPUT env s1 (Some err))
                 (\<lambda>s'. (Returned, logger_Log ERR (Error_msg err) s')))
         else
           let (content, err) = ReadAll_LimitReader r (MaxRequestSize env);
               s2 = s1\<lparr>req_consumed := Some (length content)\<rparr>
           in case err of
                Some e \<Rightarrow>
                  and_then (invalidPUT env s2 err) (\<lambda>s'. (Returned, logger_Log ERR (Error_msg e) s'))
              | None \<Rightarrow>
                 (case r_Close_err r of
                    Some e \<Rightarrow>
                      and_then (invalidPUT env (s2\<lparr>req_closed := True\<rparr>) (Some e))
                        (\<lambda>s'. (Returned, logger_Log ERR (''Failed Reception:'' @ Error_msg e) s'))
                  | None \<Rightarrow>
                      let s3 = s2\<lparr>req_closed := True\<rparr>;
                          (data, uerr) = json_Unmarshal env content
                      in case uerr of
                           Some e \<Rightarrow>
                             (Returned,
                              logger_Log ERR (Error_msg e) (s3\<lparr>wr := invalidPOST env (wr s3) uerr\<rparr>))
                         | None \<Rightarrow>
                             if format = ''XML'' then xmlPUT env r s3 url token data
                             else if format = ''JSON'' then jsonPUT env r s3 url token data
                             else and_then (invalidPUT env s3 uerr)
                                    (\<lambda>s'. (Returned, logger_Log ERR ''Unsupported Data Encoding'' s'))))"

subsection \<open>A small instance of the parameters\<close>

text \<open>
  For evaluating the handler at concrete inputs: the codecs answer as \<open>encoding/json\<close> and
  \<open>encoding/xml\<close> do on the few inputs listed (a JSON number decodes to a \<open>float64\<close>,
  which XML marshals under the element name \<open>float64\<close>; an XML document decoded into an
  empty interface is skipped and leaves nil; an error made by \<open>errors.New\<close> has no exported
  field and marshals to an empty JSON object; the keys of a map are marshalled in sorted
  order) and report an error elsewhere. The backend gives the same answer to every
  request. The helpers of the package send the status they are given.
\<close>

definition quoted :: "string \<Rightarrow> string" where
  "quoted s = CHR 0x22 # s @ [CHR 0x22]"

definition error_object_json :: bytes where
  "error_object_json =
     ''{'' @ quoted ''Code'' @ '':422,'' @ quoted ''Specfically'' @ '':{},''
       @ quoted ''Text'' @ '':'' @ quoted ''Unprocessable Entity'' @ ''}''"

definition test_json_Unmarshal :: "bytes \<Rightarrow> gvalue \<times> error option" where
  "test_json_Unmarshal b =
     (if b = ''1'' then (GInt 1, None)
      else if b = ''null'' then (GNil, None)
      else if b = ''[1,2,3]'' then (GArr [GInt 1, GInt 2, GInt 3], None)
      else if b = ''[1,2'' then (GNil, Some (Error ''unexpected end of JSON input''))
      else if b = ''<a>1</a>''
        then (GNil, Some (Error ''invalid character '<' looking for beginning of value''))
      else (GNil, Some (Error ''invalid character'')))"

definition test_json_Marshal :: "gvalue \<Rightarrow> error + bytes" where
  "test_json_Marshal v =
     (case v of
        GNil \<Rightarrow> Inr ''null''
      | GInt n \<Rightarrow> (if n = 1 then Inr ''1'' else Inl (Error ''json: value outside the table''))
      | GArr vs \<Rightarrow> (if vs = [GInt 1, GInt 2, GInt 3] then Inr ''[1,2,3]''
                   else Inl (Error ''json: value outside the table''))
      | GObj kvs \<Rightarrow>
          (case kvs of
             [(k1, c), (k2, t), (k3, GErr e)] \<Rightarrow>
               (if k1 = ''Code'' \<and> c = GInt 422 \<and> k2 = ''Text'' \<and> t = GStr ''Unprocessable Entity''
                   \<and> k3 = ''Specfically''
                then Inr error_object_json
                else Inl (Error ''json: value outside the table''))
           | _ \<Rightarrow> Inl (Error ''json: value outside the table''))
      | _ \<Rightarrow> Inl (Error ''json: value outside the table''))"

definition test_xml_Unmarshal :: "bytes \<Rightarrow> gvalue \<times> error option" where
  "test_xml_Unmarshal b =
     (if b = ''<a>1</a>'' then (GNil, None) else (GNil, Some (Error ''EOF'')))"

definition test_xml_Marshal :: "gvalue \<Rightarrow> error + bytes" where
  "test_xml_Marshal v =
     (case v of
        GNil \<Rightarrow> Inr []
      | GInt n \<Rightarrow> (if n = 1 then Inr ''<float64>1</float64>''
                  else Inl (Error ''xml: value outside the table''))
      | _ \<Rightarrow> Inl (Error ''xml: unsupported type''))"

definition test_env :: "error + Response \<Rightarrow> env" where
  "test_env res =
     \<lparr>MaxRequestSize = 1048576,
      MaxFileUploadSize = 33554432,
      JSONHeader = ''application/json; charset=UTF-8'',
      XMLHeader = ''application/xml; charset=UTF-8'',
      requestPreprocessing = (\<lambda>w r. (w, None)),
      invalidPOST = (\<lambda>w err. send_status StatusUnprocessableEntity w),
      notifyClientOfRequestError = (\<lambda>w code msg. send_status code w),
      json_Unmarshal = test_json_Unmarshal,
      xml_Unmarshal = test_xml_Unmarshal,
      json_Marshal = test_json_Marshal,
      xml_Marshal = test_xml_Marshal,
      NewRequest_ok = (\<lambda>url. list_all (\<lambda>c. c \<noteq> CHR 0x7F) url),
      client_Do = (\<lambda>q. res),
      StatusText = (\<lambda>c. if c = 500 then ''Internal Server Error'' else [])\<rparr>"

definition fresh_writer :: ResponseWriter where
  "fresh_writer =
     \<lparr>hdr = Map.empty, status = None, sent_hdr = Map.empty, superfluous = [], body = [],
      broken = None\<rparr>"

definition fresh_world :: world where
  "fresh_world =
     \<lparr>wr = fresh_writer, logs = [], sent = [], req_consumed = None, req_closed = False,
      resp_read = False, resp_closed = False\<rparr>"

definition test_request :: "(string \<times> string list) list \<Rightarrow> bytes \<Rightarrow> Request" where
  "test_request hs b = \<lparr>r_Header = map_of hs, r_Body = b, r_Body_err = None, r_Close_err = None\<rparr>"

definition test_response :: "nat \<Rightarrow> (string \<times> string list) list \<Rightarrow> bytes \<Rightarrow> error option \<Rightarrow> Response" where
  "test_response code hs b e =
     \<lparr>StatusCode = code, resp_Header = map_of hs, resp_Body = b, resp_Body_err = e\<rparr>"

abbreviation (input) answer_200 :: Response where
  "answer_200 \<equiv> test_response 200 [] ''1'' None"

abbreviation (input) tiny_env :: env where
  "tiny_env \<equiv> (test_env (Inr answer_200))\<lparr>MaxRequestSize := 4, MaxFileUploadSize := 4\<rparr>"


abbreviation (input) answer_302 :: Response where
  "answer_302 \<equiv> test_response 302 [(''Location'', [''https://x/y''])] [] None"

abbreviation (input) answer_099 :: Response where
  "answer_099 \<equiv> test_response 99 [] ''1'' None"

abbreviation (input) answer_500 :: Response where
  "answer_500 \<equiv> test_response 500 [] ''1'' None"

subsection \<open>What is assumed of the helper \<open>notifyClientOfRequestError\<close>\<close>

text \<open>A helper that only calls the methods of the response writer cannot take back a status
  line that has been sent.\<close>

definition notify_keeps_status :: "env \<Rightarrow> bool" where
  "notify_keeps_status env =
     (\<forall>w code msg. status w \<noteq> None \<longrightarrow> status (notifyClientOfRequestError env w code msg) = status w)"


definition committed :: "ResponseWriter \<Rightarrow> bool" where
  "committed w = (status w \<noteq> None)"

section \<open>Properties\<close>

subsection \<open>What the logger and the two response helpers leave alone\<close>

lemma logger_Log_fields [simp]:
  "wr (logger_Log l m s) = wr s"
  "sent (logger_Log l m s) = sent s"
  "req_consumed (logger_Log l m s) = req_consumed s"
  "req_closed (logger_Log l m s) = req_closed s"
  "resp_read (logger_Log l m s) = resp_read s"
  "resp_closed (logger_Log l m s) = resp_closed s"
  "logs (logger_Log l m s) = logs s @ [LogMsg l m]"
  by (simp_all add: logger_Log_def)

lemma logger_LogResp_fields [simp]:
  "wr (logger_LogResp l res s) = wr s"
  "sent (logger_LogResp l res s) = sent s"
  "req_consumed (logger_LogResp l res s) = req_consumed s"
  "req_closed (logger_LogResp l res s) = req_closed s"
  "resp_read (logger_LogResp l res s) = resp_read s"
  "resp_closed (logger_LogResp l res s) = resp_closed s"
  by (simp_all add: logger_LogResp_def)

lemma encode_or_notify_frame [simp]:
  "sent (encode_or_notify env v s) = sent s"
  "req_consumed (encode_or_notify env v s) = req_consumed s"
  "req_closed (encode_or_notify env v s) = req_closed s"
  "resp_read (encode_or_notify env v s) = resp_read s"
  "resp_closed (encode_or_notify env v s) = resp_closed s"
  by (simp_all add: encode_or_notify_def split: prod.splits option.splits)

text \<open>The code 422 passes the check of \<open>WriteHeader\<close>, so \<open>invalidPUT\<close> never panics and its
  callers always go on to their log line.\<close>

lemma WriteHeader_in_range:
  "checkWriteHeaderCode code \<Longrightarrow> WriteHeader code w = Some (send_status code w)"
  by (simp add: WriteHeader_def)

lemma WriteHeader_literals [simp]:
  "WriteHeader StatusUnprocessableEntity w = Some (send_status StatusUnprocessableEntity w)"
  "WriteHeader StatusFound w = Some (send_status StatusFound w)"
  "WriteHeader StatusOK w = Some (send_status StatusOK w)"
  by (simp_all add: WriteHeader_def checkWriteHeaderCode_def StatusUnprocessableEntity_def
        StatusFound_def StatusOK_def)

lemma invalidPUT_returns [simp]: "fst (invalidPUT env s err) = Returned"
  by (simp add: invalidPUT_def Let_def)

lemma and_then_invalidPUT [simp]:
  "and_then (invalidPUT env s err) k = k (snd (invalidPUT env s err))"
  using invalidPUT_returns [of env s err]
  by (cases "invalidPUT env s err") (simp add: and_then_def)

lemma deferred_Close_fields [simp]:
  "fst (deferred_Close x) = fst x"
  "wr (snd (deferred_Close x)) = wr (snd x)"
  "sent (snd (deferred_Close x)) = sent (snd x)"
  "logs (snd (deferred_Close x)) = logs (snd x)"
  "req_consumed (snd (deferred_Close x)) = req_consumed (snd x)"
  "req_closed (snd (deferred_Close x)) = req_closed (snd x)"
  "resp_read (snd (deferred_Close x)) = resp_read (snd x)"
  "resp_closed (snd (deferred_Close x))"
  by (simp_all add: deferred_Close_def)

lemma invalidPUT_frame [simp]:
  "sent (snd (invalidPUT env s err)) = sent s"
  "req_consumed (snd (invalidPUT env s err)) = req_consumed s"
  "req_closed (snd (invalidPUT env s err)) = req_closed s"
  "resp_read (snd (invalidPUT env s err)) = resp_read s"
  "resp_closed (snd (invalidPUT env s err)) = resp_closed s"
  by (simp_all add: invalidPUT_def Let_def)

lemma unsuccessfulPUT_frame [simp]:
  "sent (unsuccessfulPUT env s format content err) = sent s"
  "req_consumed (unsuccessfulPUT env s format content err) = req_consumed s"
  "req_closed (unsuccessfulPUT env s format content err) = req_closed s"
  "resp_read (unsuccessfulPUT env s format content err) = resp_read s"
  "resp_closed (unsuccessfulPUT env s format content err) = resp_closed s"
  by (simp_all add: unsuccessfulPUT_def)

text \<open>The definitions to unfold when the model is evaluated at a concrete input.\<close>

lemmas test_defs =
  test_env_def fresh_world_def fresh_writer_def test_request_def test_response_def
  test_json_Unmarshal_def test_json_Marshal_def test_xml_Unmarshal_def test_xml_Marshal_def
  error_object_json_def quoted_def

lemmas model_defs =
  PUT_def rawPUT_def rawPUT_relay_def jsonPUT_def xmlPUT_def invalidPUT_def encode_or_notify_def
  unsuccessfulPUT_def Encode_def Write_def WriteHeader_def send_status_def
  checkWriteHeaderCode_def bodyAllowedForStatus_def ErrBodyNotAllowed_def and_then_def
  deferred_Close_def w_Header_Set_def Header_Set_def
  Header_Get_def copy_headers_def origin_headers_def ReadAll_LimitReader_def ReadAll_resp_def
  logger_Log_def logger_LogResp_def jsonPUT_request_def xmlPUT_request_def rawPUT_request_def
  StatusOK_def StatusFound_def StatusUnprocessableEntity_def StatusBadGateway_def
  invalidPUT_data_def error_value_def Let_def

subsection \<open>What each pipeline sends to the backend\<close>

lemma jsonPUT_sent:
  "sent (snd (jsonPUT env r s url token data)) =
     (case json_Marshal env data of
        Inl e \<Rightarrow> sent s
      | Inr c \<Rightarrow> if NewRequest_ok env url then sent s @ [jsonPUT_request env r url token c] else sent s)"
  by (simp add: jsonPUT_def Let_def split: sum.splits option.splits prod.splits)

lemma xmlPUT_sent:
  "sent (snd (xmlPUT env r s url token data)) =
     (case xml_Marshal env data of
        Inl e \<Rightarrow> sent s
      | Inr c \<Rightarrow> if NewRequest_ok env url then sent s @ [xmlPUT_request env r url token c] else sent s)"
  by (simp add: xmlPUT_def Let_def split: sum.splits option.splits prod.splits)

lemma rawPUT_relay_sent [simp]: "sent (snd (rawPUT_relay env resp s)) = sent s"
  by (simp add: rawPUT_relay_def Let_def split: option.splits prod.splits)

lemma rawPUT_sent:
  "sent (snd (rawPUT env r s url token)) =
     (case ReadAll_LimitReader r (MaxFileUploadSize env) of
        (content, Some e) \<Rightarrow> sent s
      | (content, None) \<Rightarrow>
          if r_Close_err r = None \<and> NewRequest_ok env url
          then sent s @ [rawPUT_request r url token content] else sent s)"
  by (simp add: rawPUT_def Let_def split: sum.splits option.splits prod.splits)

subsection \<open>The \<open>Authorization\<close> header\<close>

text \<open>Claim C9. In each of the three pipelines, every request handed to the backend carries
  as \<open>Authorization\<close> exactly the inbound value list when the token is empty (nothing when the
  inbound request has none), and the token alone when it is not empty.\<close>

theorem authorization_from_token_or_inbound:
  assumes "res \<in> {jsonPUT env r s url token data, xmlPUT env r s url token data,
                   rawPUT env r s url token}"
    and "q \<in> set (sent (snd res))" and "q \<notin> set (sent s)"
  shows "q_Header q ''Authorization'' =
           (if token = [] then r_Header r ''Authorization'' else Some [token])"
  using assms
  by (auto simp: jsonPUT_sent xmlPUT_sent rawPUT_sent jsonPUT_request_def xmlPUT_request_def
        rawPUT_request_def Let_def Header_Set_def copy_headers_def
      split: sum.splits option.splits prod.splits if_splits)

theorem authorization_from_token_or_inbound_witness:
  "rawPUT (test_env (Inr (test_response 200 [] ''ok'' None)))
       (test_request [(''Authorization'', [''Bearer abc''])] ''payload'') fresh_world ''http://backend/x'' []
     \<in> {jsonPUT (test_env (Inr (test_response 200 [] ''ok'' None)))
          (test_request [(''Authorization'', [''Bearer abc''])] ''payload'') fresh_world ''http://backend/x'' [] GNil,
        xmlPUT (test_env (Inr (test_response 200 [] ''ok'' None)))
          (test_request [(''Authorization'', [''Bearer abc''])] ''payload'') fresh_world ''http://backend/x'' [] GNil,
        rawPUT (test_env (Inr (test_response 200 [] ''ok'' None)))
          (test_request [(''Authorization'', [''Bearer abc''])] ''payload'') fresh_world ''http://backend/x'' []}
   \<and> rawPUT_request (test_request [(''Authorization'', [''Bearer abc''])] ''payload'') ''http://backend/x'' [] ''payload''
     \<in> set (sent (snd (rawPUT (test_env (Inr (test_response 200 [] ''ok'' None)))
          (test_request [(''Authorization'', [''Bearer abc''])] ''payload'') fresh_world ''http://backend/x'' [])))
   \<and> rawPUT_request (test_request [(''Authorization'', [''Bearer abc''])] ''payload'') ''http://backend/x'' [] ''payload''
     \<notin> set (sent fresh_world)
   \<and> q_Header (rawPUT_request (test_request [(''Authorization'', [''Bearer abc''])] ''payload'')
         ''http://backend/x'' [] ''payload'') ''Authorization'' = Some [''Bearer abc'']"
proof -
  let ?E = "test_env (Inr (test_response 200 [] ''ok'' None))"
  let ?r = "test_request [(''Authorization'', [''Bearer abc''])] ''payload''"
  let ?res = "rawPUT ?E ?r fresh_world ''http://backend/x'' []"
  let ?q = "rawPUT_request ?r ''http://backend/x'' [] ''payload''"
  have a: "?res \<in> {jsonPUT ?E ?r fresh_world ''http://backend/x'' [] GNil,
                     xmlPUT ?E ?r fresh_world ''http://backend/x'' [] GNil, ?res}"
    by simp
  have b: "?q \<in> set (sent (snd ?res))"
    by (simp add: rawPUT_sent ReadAll_LimitReader_def test_env_def test_request_def fresh_world_def)
  have c: "?q \<notin> set (sent fresh_world)"
    by (simp add: fresh_world_def)
  from authorization_from_token_or_inbound [OF a b c] a b c show ?thesis
    by (simp add: test_request_def)
qed

subsection \<open>Redirects\<close>



subsection \<open>The status line and the unsupported format\<close>

lemma send_status_status:
  "status (send_status code w) = (case status w of None \<Rightarrow> Some code | Some c \<Rightarrow> Some c)"
  by (simp add: send_status_def split: option.splits)

lemma Write_status:
  "status (fst (Write b w)) = (case status w of None \<Rightarrow> Some StatusOK | Some c \<Rightarrow> Some c)"
  by (simp add: Write_def send_status_def Let_def split: option.splits)

lemma Encode_status_keep:
  "status w = Some c \<Longrightarrow> status (fst (Encode env v w)) = Some c"
  by (simp add: Encode_def Write_status split: sum.splits)

lemma encode_or_notify_status_keep:
  assumes "notify_keeps_status env" and "status (wr s) = Some c"
  shows "status (wr (encode_or_notify env v s)) = Some c"
proof (cases "Encode env v (wr s)")
  case (Pair w1 e)
  with Encode_status_keep [OF assms(2), of env v] have w1: "status w1 = Some c"
    by simp
  show ?thesis
  proof (cases e)
    case None
    with Pair w1 show ?thesis by (simp add: encode_or_notify_def)
  next
    case (Some x)
    from assms(1) w1 have "status (notifyClientOfRequestError env w1 StatusBadGateway []) = Some c"
      by (simp add: notify_keeps_status_def)
    with Pair Some show ?thesis by (simp add: encode_or_notify_def)
  qed
qed

lemma invalidPUT_status:
  assumes "notify_keeps_status env"
  shows "status (wr (snd (invalidPUT env s err))) =
           (case status (wr s) of None \<Rightarrow> Some 422 | Some c \<Rightarrow> Some c)"
proof -
  let ?w2 = "send_status StatusUnprocessableEntity
               (w_Header_Set ''Content-Type'' ''application/json; charset=UTF-8'' (wr s))"
  have "status ?w2 = (case status (wr s) of None \<Rightarrow> Some 422 | Some c \<Rightarrow> Some c)"
    by (simp add: send_status_status w_Header_Set_def StatusUnprocessableEntity_def)
  then obtain c where c: "status ?w2 = Some c"
    and c': "(case status (wr s) of None \<Rightarrow> Some 422 | Some c \<Rightarrow> Some c) = Some c"
    by (cases "status (wr s)") auto
  from encode_or_notify_status_keep [OF assms, of "s\<lparr>wr := ?w2\<rparr>" c] c c'
  show ?thesis by (simp add: invalidPUT_def Let_def)
qed

lemma invalidPUT_commits:
  "notify_keeps_status env \<Longrightarrow> status (wr (snd (invalidPUT env s err))) \<noteq> None"
  by (simp add: invalidPUT_status split: option.splits)

lemma unsuccessfulPUT_status_keep:
  assumes "notify_keeps_status env" and "status (wr s) = Some c"
  shows "status (wr (unsuccessfulPUT env s format content err)) = Some c"
  using assms by (simp add: unsuccessfulPUT_def encode_or_notify_status_keep Write_status)

lemma notify_keeps_status_test_env: "notify_keeps_status (test_env res)"
  by (simp add: notify_keeps_status_def test_env_def send_status_def)

text \<open>Claim C7. A format other than \<open>RAW\<close>, \<open>XML\<close> and \<open>JSON\<close> ends the call with status 422
  and the error diagnostic \<open>Unsupported data encoding\<close>; the inbound body is not read and no
  request goes to the backend.\<close>

theorem unsupported_format_fails_fast:
  assumes "format \<noteq> ''RAW''" and "format \<noteq> ''XML''" and "format \<noteq> ''JSON''"
    and "requestPreprocessing env (origin_headers r (wr s)) r = (w1, None)"
    and "status w1 = None"
    and "notify_keeps_status env"
  shows "fst (PUT env s url format token r) = Returned
       \<and> status (wr (snd (PUT env s url format token r))) = Some 422
       \<and> LogMsg ERR ''Unsupported data encoding'' \<in> set (logs (snd (PUT env s url format token r)))
       \<and> req_consumed (snd (PUT env s url format token r)) = req_consumed s
       \<and> sent (snd (PUT env s url format token r)) = sent s"
proof -
  let ?err = "Some (Error ''Unsupported data encoding'')"
  have put: "PUT env s url format token r =
               (Returned, logger_Log ERR ''Unsupported data encoding''
                            (snd (invalidPUT env (s\<lparr>wr := w1\<rparr>) ?err)))"
    using assms(1-4) by (simp add: PUT_def Let_def)
  have "status (wr (snd (invalidPUT env (s\<lparr>wr := w1\<rparr>) ?err))) = Some 422"
    using assms(5,6) by (simp add: invalidPUT_status)
  with put show ?thesis by simp
qed

theorem unsupported_format_fails_fast_witness:
  "''YAML'' \<noteq> ''RAW'' \<and> ''YAML'' \<noteq> ''XML'' \<and> ''YAML'' \<noteq> ''JSON''
   \<and> requestPreprocessing (test_env (Inl (Error ''unused'')))
         (origin_headers (test_request [] ''a: 1'') (wr fresh_world)) (test_request [] ''a: 1'')
       = (fresh_writer, None)
   \<and> status fresh_writer = None
   \<and> notify_keeps_status (test_env (Inl (Error ''unused'')))
   \<and> status (wr (snd (PUT (test_env (Inl (Error ''unused''))) fresh_world ''http://backend/x'' ''YAML'' []
         (test_request [] ''a: 1'')))) = Some 422
   \<and> req_consumed (snd (PUT (test_env (Inl (Error ''unused''))) fresh_world ''http://backend/x'' ''YAML'' []
         (test_request [] ''a: 1''))) = None
   \<and> sent (snd (PUT (test_env (Inl (Error ''unused''))) fresh_world ''http://backend/x'' ''YAML'' []
         (test_request [] ''a: 1''))) = []"
proof -
  let ?E = "test_env (Inl (Error ''unused''))"
  let ?r = "test_request [] ''a: 1''"
  have a: "''YAML'' \<noteq> ''RAW''" and b: "''YAML'' \<noteq> ''XML''" and c: "''YAML'' \<noteq> ''JSON''"
    by simp_all
  have d: "requestPreprocessing ?E (origin_headers ?r (wr fresh_world)) ?r = (fresh_writer, None)"
    by (simp add: test_env_def origin_headers_def Header_Get_def test_request_def fresh_world_def)
  have e: "status fresh_writer = None"
    by (simp add: fresh_writer_def)
  have f: "notify_keeps_status ?E"
    by (rule notify_keeps_status_test_env)
  from unsupported_format_fails_fast [OF a b c d e f, where url = "''http://backend/x''" and token = "[]"]
    a b c d e f
  show ?thesis by (simp add: fresh_world_def)
qed

subsection \<open>The body of a backend failure\<close>

lemma Write_body:
  assumes "broken w = None" and "\<forall>c. status w = Some c \<longrightarrow> bodyAllowedForStatus c"
  shows "body (fst (Write b w)) = body w @ b"
  using assms
  by (cases "status w")
     (simp_all add: Write_def send_status_def Let_def bodyAllowedForStatus_def StatusOK_def)

lemma encode_or_notify_body:
  assumes "json_Marshal env v = Inr out" and "broken (wr s) = None"
    and "\<forall>c. status (wr s) = Some c \<longrightarrow> bodyAllowedForStatus c"
  shows "body (wr (encode_or_notify env v s)) = body (wr s) @ out @ [CHR 0x0A]"
proof -
  have "snd (Write (out @ [CHR 0x0A]) (wr s)) = None"
    using assms(2,3)
    by (cases "status (wr s)")
       (simp_all add: Write_def send_status_def Let_def bodyAllowedForStatus_def StatusOK_def)
  then obtain w1 where w1: "Write (out @ [CHR 0x0A]) (wr s) = (w1, None)"
    by (cases "Write (out @ [CHR 0x0A]) (wr s)") simp
  with Write_body [OF assms(2,3), of "out @ [CHR 0x0A]"] have "body w1 = body (wr s) @ out @ [CHR 0x0A]"
    by simp
  with assms(1) w1 show ?thesis
    by (simp add: encode_or_notify_def Encode_def)
qed

lemma unsuccessfulPUT_body:
  assumes "broken (wr s) = None"
    and "\<forall>c. status (wr s) = Some c \<longrightarrow> bodyAllowedForStatus c"
  shows "format = ''JSON'' \<Longrightarrow> json_Marshal env (fst (json_Unmarshal env content)) = Inr out \<Longrightarrow>
           body (wr (unsuccessfulPUT env s format content err)) = body (wr s) @ out @ [CHR 0x0A]"
    and "format = ''XML'' \<Longrightarrow> json_Marshal env (fst (xml_Unmarshal env content)) = Inr out \<Longrightarrow>
           body (wr (unsuccessfulPUT env s format content err)) = body (wr s) @ out @ [CHR 0x0A]"
    and "format \<noteq> ''JSON'' \<Longrightarrow> format \<noteq> ''XML'' \<Longrightarrow>
           body (wr (unsuccessfulPUT env s format content err)) = body (wr s) @ content"
  using assms by (simp_all add: unsuccessfulPUT_def encode_or_notify_body Write_body)

lemma jsonPUT_backend_failure:
  assumes "json_Marshal env data = Inr c" and "NewRequest_ok env url"
    and "client_Do env (jsonPUT_request env r url token c) = Inr resp"
    and "StatusCode resp \<noteq> 302" and "StatusCode resp \<noteq> 200"
    and "checkWriteHeaderCode (StatusCode resp)"
  shows "jsonPUT env r s url token data =
           (Returned,
            unsuccessfulPUT env
              ((logger_Log WARN (''SERVICE FAILED - SERVICE RETURNED STATUS '' @ StatusText env (StatusCode resp))
                 (logger_LogResp DEBUG (Inr resp) (s\<lparr>sent := sent s @ [jsonPUT_request env r url token c]\<rparr>)))
               \<lparr>wr := send_status (StatusCode resp)
                        (w_Header_Set ''Content-Type'' ''application/json; charset=UTF-8'' (wr s)),
                resp_read := True\<rparr>)
              ''JSON'' (resp_Body resp) (resp_Body_err resp))"
  using assms
  by (simp add: jsonPUT_def Let_def StatusFound_def StatusOK_def ReadAll_resp_def
        WriteHeader_in_range)

lemma xmlPUT_backend_failure:
  assumes "xml_Marshal env data = Inr c" and "NewRequest_ok env url"
    and "client_Do env (xmlPUT_request env r url token c) = Inr resp"
    and "StatusCode resp \<noteq> 302" and "StatusCode resp \<noteq> 200"
    and "checkWriteHeaderCode (StatusCode resp)"
  shows "xmlPUT env r s url token data =
           (Returned,
            unsuccessfulPUT env
              ((logger_Log WARN (''SERVICE FAILED - SERVICE RETURNED STATUS '' @ StatusText env (StatusCode resp))
                 (logger_LogResp DEBUG (Inr resp) (s\<lparr>sent := sent s @ [xmlPUT_request env r url token c]\<rparr>)))
               \<lparr>wr := send_status (StatusCode resp)
                        (w_Header_Set ''Content-Type'' (XMLHeader env) (wr s)),
                resp_read := True\<rparr>)
              ''XML'' (resp_Body resp) (resp_Body_err resp))"
  using assms
  by (simp add: xmlPUT_def Let_def StatusFound_def StatusOK_def ReadAll_resp_def
        WriteHeader_in_range)

lemma rawPUT_relays_body:
  assumes "ReadAll_LimitReader r (MaxFileUploadSize env) = (content, None)" and "r_Close_err r = None"
    and "NewRequest_ok env url"
    and "client_Do env (rawPUT_request r url token content) = Inr resp"
    and "resp_Body_err resp = None" and "broken (wr s) = None" and "status (wr s) = None"
    and "StatusCode resp \<noteq> 200"
    and "checkWriteHeaderCode (StatusCode resp)" and "bodyAllowedForStatus (StatusCode resp)"
  shows "body (wr (snd (rawPUT env r s url token))) = body (wr s) @ resp_Body resp"
proof -
  let ?sl = "logger_Log WARN (''SERVICE FAILED - SERVICE RETURNED STATUS '' @ StatusText env (StatusCode resp))
               (logger_LogResp DEBUG (Inr resp)
                  (s\<lparr>req_consumed := Some (length content), req_closed := True,
                      sent := sent s @ [rawPUT_request r url token content]\<rparr>))"
  let ?w2 = "send_status (StatusCode resp)
               (w_Header_Set ''Content-Type'' ''application/json; charset=UTF-8'' (wr s))"
  let ?w3 = "w_Header_Set ''Content-Type'' (Header_Get (resp_Header resp) ''Content-Type'') ?w2"
  have raw: "rawPUT env r s url token = rawPUT_relay env resp (?sl\<lparr>wr := ?w2\<rparr>)"
    using assms(1-4,8,9)
    by (simp add: rawPUT_def Let_def StatusOK_def WriteHeader_in_range)
  have w3: "broken ?w3 = None" "status ?w3 = Some (StatusCode resp)" "body ?w3 = body (wr s)"
    using assms(6,7) by (simp_all add: send_status_def w_Header_Set_def)
  then have allowed: "\<forall>c. status ?w3 = Some c \<longrightarrow> bodyAllowedForStatus c"
    using assms(10) by simp
  have wb: "body (fst (Write (resp_Body resp) ?w3)) = body (wr s) @ resp_Body resp"
    using Write_body [OF w3(1) allowed, of "resp_Body resp"] w3(3) by simp
  have ok: "snd (Write (resp_Body resp) ?w3) = None"
    using w3(1,2) assms(10) by (simp add: Write_def Let_def)
  show ?thesis
    unfolding raw using assms(5) wb ok
    by (cases "Write (resp_Body resp) ?w3")
       (simp add: rawPUT_relay_def Let_def ReadAll_resp_def)
qed

text \<open>Claim C1, as amended. For a backend status other than 200 that the response writer
  accepts and that allows a body (a code from 200 to 999 other than 204 and 304), on a
  response of which nothing has been sent yet: in the JSON and the XML pipeline (where 302
  is a redirect and is left out as well) the client's body is the JSON encoding of what the
  decoder of the pipeline's format left after decoding the backend's body; the RAW pipeline,
  and \<open>unsuccessfulPUT\<close> under any other format name, write the bytes of the backend's body
  as they are.\<close>

theorem backend_error_body_relayed:
  assumes "broken (wr s) = None" and "status (wr s) = None" and "NewRequest_ok env url"
    and "StatusCode resp \<noteq> 200"
    and "checkWriteHeaderCode (StatusCode resp)" and "bodyAllowedForStatus (StatusCode resp)"
  shows "(json_Marshal env data = Inr cj
            \<and> client_Do env (jsonPUT_request env r url token cj) = Inr resp
            \<and> StatusCode resp \<noteq> 302
            \<and> json_Marshal env (fst (json_Unmarshal env (resp_Body resp))) = Inr oj
          \<longrightarrow> body (wr (snd (jsonPUT env r s url token data))) = body (wr s) @ oj @ [CHR 0x0A])
       \<and> (xml_Marshal env data = Inr cx
            \<and> client_Do env (xmlPUT_request env r url token cx) = Inr resp
            \<and> StatusCode resp \<noteq> 302
            \<and> json_Marshal env (fst (xml_Unmarshal env (resp_Body resp))) = Inr ox
          \<longrightarrow> body (wr (snd (xmlPUT env r s url token data))) = body (wr s) @ ox @ [CHR 0x0A])
       \<and> (ReadAll_LimitReader r (MaxFileUploadSize env) = (content, None)
            \<and> r_Close_err r = None
            \<and> client_Do env (rawPUT_request r url token content) = Inr resp
            \<and> resp_Body_err resp = None
          \<longrightarrow> body (wr (snd (rawPUT env r s url token))) = body (wr s) @ resp_Body resp)
       \<and> (format \<noteq> ''JSON'' \<and> format \<noteq> ''XML''
          \<longrightarrow> body (wr (unsuccessfulPUT env s format bs err)) = body (wr s) @ bs)"
proof (intro conjI impI)
  assume h: "json_Marshal env data = Inr cj
            \<and> client_Do env (jsonPUT_request env r url token cj) = Inr resp
            \<and> StatusCode resp \<noteq> 302
            \<and> json_Marshal env (fst (json_Unmarshal env (resp_Body resp))) = Inr oj"
  let ?s3 = "(logger_Log WARN (''SERVICE FAILED - SERVICE RETURNED STATUS '' @ StatusText env (StatusCode resp))
                 (logger_LogResp DEBUG (Inr resp) (s\<lparr>sent := sent s @ [jsonPUT_request env r url token cj]\<rparr>)))
               \<lparr>wr := send_status (StatusCode resp)
                        (w_Header_Set ''Content-Type'' ''application/json; charset=UTF-8'' (wr s)),
                resp_read := True\<rparr>"
  from h assms have eq: "jsonPUT env r s url token data =
      (Returned, unsuccessfulPUT env ?s3 ''JSON'' (resp_Body resp) (resp_Body_err resp))"
    by (simp add: jsonPUT_backend_failure)
  have s3: "broken (wr ?s3) = None" "status (wr ?s3) = Some (StatusCode resp)" "body (wr ?s3) = body (wr s)"
    using assms(1,2) by (simp_all add: send_status_def w_Header_Set_def)
  then have "\<forall>c. status (wr ?s3) = Some c \<longrightarrow> bodyAllowedForStatus c"
    using assms(6) by simp
  from unsuccessfulPUT_body(1) [OF s3(1) this refl, of env "resp_Body resp" oj "resp_Body_err resp"] h s3(3)
  show "body (wr (snd (jsonPUT env r s url token data))) = body (wr s) @ oj @ [CHR 0x0A]"
    unfolding eq by simp
next
  assume h: "xml_Marshal env data = Inr cx
            \<and> client_Do env (xmlPUT_request env r url token cx) = Inr resp
            \<and> StatusCode resp \<noteq> 302
            \<and> json_Marshal env (fst (xml_Unmarshal env (resp_Body resp))) = Inr ox"
  let ?s3 = "(logger_Log WARN (''SERVICE FAILED - SERVICE RETURNED STATUS '' @ StatusText env (StatusCode resp))
                 (logger_LogResp DEBUG (Inr resp) (s\<lparr>sent := sent s @ [xmlPUT_request env r url token cx]\<rparr>)))
               \<lparr>wr := send_status (StatusCode resp)
                        (w_Header_Set ''Content-Type'' (XMLHeader env) (wr s)),
                resp_read := True\<rparr>"
  from h assms have eq: "xmlPUT env r s url token data =
      (Returned, unsuccessfulPUT env ?s3 ''XML'' (resp_Body resp) (resp_Body_err resp))"
    by (simp add: xmlPUT_backend_failure)
  have s3: "broken (wr ?s3) = None" "status (wr ?s3) = Some (StatusCode resp)" "body (wr ?s3) = body (wr s)"
    using assms(1,2) by (simp_all add: send_status_def w_Header_Set_def)
  then have "\<forall>c. status (wr ?s3) = Some c \<longrightarrow> bodyAllowedForStatus c"
    using assms(6) by simp
  from unsuccessfulPUT_body(2) [OF s3(1) this refl, of env "resp_Body resp" ox "resp_Body_err resp"] h s3(3)
  show "body (wr (snd (xmlPUT env r s url token data))) = body (wr s) @ ox @ [CHR 0x0A]"
    unfolding eq by simp
next
  assume "ReadAll_LimitReader r (MaxFileUploadSize env) = (content, None)
            \<and> r_Close_err r = None
            \<and> client_Do env (rawPUT_request r url token content) = Inr resp
            \<and> resp_Body_err resp = None"
  with assms show "body (wr (snd (rawPUT env r s url token))) = body (wr s) @ resp_Body resp"
    by (simp add: rawPUT_relays_body)
next
  assume f: "format \<noteq> ''JSON'' \<and> format \<noteq> ''XML''"
  from assms(2) have "\<forall>c. status (wr s) = Some c \<longrightarrow> bodyAllowedForStatus c"
    by simp
  from unsuccessfulPUT_body(3) [OF assms(1) this, of format env bs err] f
  show "body (wr (unsuccessfulPUT env s format bs err)) = body (wr s) @ bs"
    by simp
qed

theorem backend_error_body_relayed_witness:
  "broken (wr fresh_world) = None
   \<and> status (wr fresh_world) = None
   \<and> checkWriteHeaderCode (StatusCode answer_500)
   \<and> bodyAllowedForStatus (StatusCode answer_500)
   \<and> NewRequest_ok (test_env (Inr answer_500)) ''http://backend/x''
   \<and> StatusCode answer_500 \<noteq> 200
   \<and> json_Marshal (test_env (Inr answer_500)) (GInt 1) = Inr ''1''
   \<and> client_Do (test_env (Inr answer_500))
         (jsonPUT_request (test_env (Inr answer_500)) (test_request [] ''abc'') ''http://backend/x'' [] ''1'')
       = Inr answer_500
   \<and> StatusCode answer_500 \<noteq> 302
   \<and> json_Marshal (test_env (Inr answer_500))
         (fst (json_Unmarshal (test_env (Inr answer_500)) (resp_Body answer_500))) = Inr ''1''
   \<and> body (wr (snd (jsonPUT (test_env (Inr answer_500)) (test_request [] ''abc'') fresh_world
         ''http://backend/x'' [] (GInt 1)))) = ''1'' @ [CHR 0x0A]
   \<and> xml_Marshal (test_env (Inr answer_500)) (GInt 1) = Inr ''<float64>1</float64>''
   \<and> client_Do (test_env (Inr answer_500))
         (xmlPUT_request (test_env (Inr answer_500)) (test_request [] ''abc'') ''http://backend/x'' []
            ''<float64>1</float64>'')
       = Inr answer_500
   \<and> json_Marshal (test_env (Inr answer_500))
         (fst (xml_Unmarshal (test_env (Inr answer_500)) (resp_Body answer_500))) = Inr ''null''
   \<and> body (wr (snd (xmlPUT (test_env (Inr answer_500)) (test_request [] ''abc'') fresh_world
         ''http://backend/x'' [] (GInt 1)))) = ''null'' @ [CHR 0x0A]
   \<and> ReadAll_LimitReader (test_request [] ''abc'') (MaxFileUploadSize (test_env (Inr answer_500)))
       = (''abc'', None)
   \<and> r_Close_err (test_request [] ''abc'') = None
   \<and> client_Do (test_env (Inr answer_500)) (rawPUT_request (test_request [] ''abc'') ''http://backend/x'' [] ''abc'')
       = Inr answer_500
   \<and> resp_Body_err answer_500 = None
   \<and> body (wr (snd (rawPUT (test_env (Inr answer_500)) (test_request [] ''abc'') fresh_world
         ''http://backend/x'' []))) = ''1''
   \<and> ''TEXT'' \<noteq> ''JSON'' \<and> ''TEXT'' \<noteq> ''XML''
   \<and> body (wr (unsuccessfulPUT (test_env (Inr answer_500)) fresh_world ''TEXT'' ''oops'' None)) = ''oops''"
proof -
  let ?E = "test_env (Inr answer_500)"
  let ?r = "test_request [] ''abc''"
  have a: "broken (wr fresh_world) = None"
    by (simp add: fresh_world_def fresh_writer_def)
  have a': "status (wr fresh_world) = None"
    by (simp add: fresh_world_def fresh_writer_def)
  have b: "NewRequest_ok ?E ''http://backend/x''"
    by (simp add: test_env_def)
  have c: "StatusCode answer_500 \<noteq> 200"
    by (simp add: test_response_def)
  have d: "checkWriteHeaderCode (StatusCode answer_500)"
    by (simp add: test_response_def checkWriteHeaderCode_def)
  have e: "bodyAllowedForStatus (StatusCode answer_500)"
    by (simp add: test_response_def bodyAllowedForStatus_def)
  have j: "json_Marshal ?E (GInt 1) = Inr ''1''
         \<and> client_Do ?E (jsonPUT_request ?E ?r ''http://backend/x'' [] ''1'') = Inr answer_500
         \<and> StatusCode answer_500 \<noteq> 302
         \<and> json_Marshal ?E (fst (json_Unmarshal ?E (resp_Body answer_500))) = Inr ''1''"
    by (simp add: test_env_def test_json_Marshal_def test_json_Unmarshal_def test_response_def)
  have x: "xml_Marshal ?E (GInt 1) = Inr ''<float64>1</float64>''
         \<and> client_Do ?E (xmlPUT_request ?E ?r ''http://backend/x'' [] ''<float64>1</float64>'') = Inr answer_500
         \<and> StatusCode answer_500 \<noteq> 302
         \<and> json_Marshal ?E (fst (xml_Unmarshal ?E (resp_Body answer_500))) = Inr ''null''"
    by (simp add: test_env_def test_json_Marshal_def test_xml_Marshal_def test_xml_Unmarshal_def
          test_response_def)
  have w: "ReadAll_LimitReader ?r (MaxFileUploadSize ?E) = (''abc'', None)
         \<and> r_Close_err ?r = None
         \<and> client_Do ?E (rawPUT_request ?r ''http://backend/x'' [] ''abc'') = Inr answer_500
         \<and> resp_Body_err answer_500 = None"
    by (simp add: test_env_def ReadAll_LimitReader_def test_request_def test_response_def)
  have u: "''TEXT'' \<noteq> ''JSON'' \<and> ''TEXT'' \<noteq> ''XML''"
    by simp
  from backend_error_body_relayed [OF a a' b c d e, where data = "GInt 1" and cj = "''1''"
      and r = ?r and token = "[]" and oj = "''1''" and cx = "''<float64>1</float64>''"
      and ox = "''null''" and content = "''abc''" and format = "''TEXT''" and bs = "''oops''"
      and err = None] j x w u
  have "body (wr (snd (jsonPUT ?E ?r fresh_world ''http://backend/x'' [] (GInt 1))))
          = body (wr fresh_world) @ ''1'' @ [CHR 0x0A]
      \<and> body (wr (snd (xmlPUT ?E ?r fresh_world ''http://backend/x'' [] (GInt 1))))
          = body (wr fresh_world) @ ''null'' @ [CHR 0x0A]
      \<and> body (wr (snd (rawPUT ?E ?r fresh_world ''http://backend/x'' [])))
          = body (wr fresh_world) @ resp_Body answer_500
      \<and> body (wr (unsuccessfulPUT ?E fresh_world ''TEXT'' ''oops'' None))
          = body (wr fresh_world) @ ''oops''"
    by blast
  moreover have "body (wr fresh_world) = []" and "resp_Body answer_500 = ''1''"
    by (simp_all add: fresh_world_def fresh_writer_def test_response_def)
  ultimately show ?thesis
    using a a' b c d e j x w u by simp
qed

text \<open>Claim C1 as stated fails at a backend status that the response writer does not
  accept: under \<open>JSON\<close>, with the backend answering status 099 and the body \<open>1\<close>,
  \<open>w.WriteHeader(resp.StatusCode)\<close> panics and the handler ends with no status line and no
  body, where the claim has the JSON encoding of the decoded body.\<close>

theorem error_body_relayed_for_every_status_counterexample:
  "StatusCode answer_099 \<noteq> 200 \<and> StatusCode answer_099 \<noteq> 302
   \<and> json_Marshal (test_env (Inr answer_099))
         (fst (json_Unmarshal (test_env (Inr answer_099)) (resp_Body answer_099))) = Inr ''1''
   \<and> fst (PUT (test_env (Inr answer_099)) fresh_world ''http://backend/x'' ''JSON'' [] (test_request [] ''1''))
       = Panicked
   \<and> status (wr (snd (PUT (test_env (Inr answer_099)) fresh_world ''http://backend/x'' ''JSON'' []
         (test_request [] ''1'')))) = None
   \<and> body (wr (snd (PUT (test_env (Inr answer_099)) fresh_world ''http://backend/x'' ''JSON'' []
         (test_request [] ''1'')))) = []"
  by (simp add: model_defs test_defs)

subsection \<open>Decoding of the inbound body\<close>

lemma PUT_after_preprocessing:
  assumes "requestPreprocessing env (origin_headers r (wr s)) r = (w1, None)"
  shows "PUT env s url format token r =
     (if format = ''RAW'' then rawPUT env r (s\<lparr>wr := w1\<rparr>) url token
      else if format \<noteq> ''XML'' \<and> format \<noteq> ''JSON'' then
        (Returned, logger_Log ERR ''Unsupported data encoding''
                     (snd (invalidPUT env (s\<lparr>wr := w1\<rparr>) (Some (Error ''Unsupported data encoding'')))))
      else
        (case ReadAll_LimitReader r (MaxRequestSize env) of
           (content, Some e) \<Rightarrow>
             (Returned, logger_Log ERR (Error_msg e)
                (snd (invalidPUT env (s\<lparr>wr := w1, req_consumed := Some (length content)\<rparr>) (Some e))))
         | (content, None) \<Rightarrow>
            (case r_Close_err r of
               Some e \<Rightarrow>
                 (Returned, logger_Log ERR (''Failed Reception:'' @ Error_msg e)
                    (snd (invalidPUT env
                            (s\<lparr>wr := w1, req_consumed := Some (length content), req_closed := True\<rparr>)
                            (Some e))))
             | None \<Rightarrow>
                (case json_Unmarshal env content of
                   (data, Some e) \<Rightarrow>
                     (Returned, logger_Log ERR (Error_msg e)
                        (s\<lparr>wr := invalidPOST env w1 (Some e), req_consumed := Some (length content),
                           req_closed := True\<rparr>))
                 | (data, None) \<Rightarrow>
                     (if format = ''XML'' then xmlPUT else jsonPUT) env r
                       (s\<lparr>wr := w1, req_consumed := Some (length content), req_closed := True\<rparr>)
                       url token data))))"
  using assms
  by (auto simp: PUT_def Let_def split: prod.splits option.splits)

text \<open>Claim C2, as amended. Under \<open>JSON\<close> and under \<open>XML\<close> alike the inbound body (cut at
  \<open>MaxRequestSize\<close>) is decoded with the JSON decoder, and the value it yields is what the
  pipeline of the format receives; the XML decoder is not applied to the inbound body.\<close>

theorem inbound_body_decoded_as_json:
  assumes "format = ''JSON'' \<or> format = ''XML''"
    and "requestPreprocessing env (origin_headers r (wr s)) r = (w1, None)"
    and "ReadAll_LimitReader r (MaxRequestSize env) = (content, None)"
    and "r_Close_err r = None"
    and "json_Unmarshal env content = (data, None)"
  shows "PUT env s url format token r =
           (if format = ''XML'' then xmlPUT else jsonPUT) env r
             (s\<lparr>wr := w1, req_consumed := Some (length content), req_closed := True\<rparr>) url token data"
  using assms by (auto simp: PUT_after_preprocessing)

theorem inbound_body_decoded_as_json_witness:
  "(''XML'' = ''JSON'' \<or> ''XML'' = ''XML'')
   \<and> requestPreprocessing (test_env (Inr answer_200))
         (origin_headers (test_request [] ''1'') (wr fresh_world)) (test_request [] ''1'')
       = (fresh_writer, None)
   \<and> ReadAll_LimitReader (test_request [] ''1'') (MaxRequestSize (test_env (Inr answer_200))) = (''1'', None)
   \<and> r_Close_err (test_request [] ''1'') = None
   \<and> json_Unmarshal (test_env (Inr answer_200)) ''1'' = (GInt 1, None)
   \<and> map q_Body (sent (snd (PUT (test_env (Inr answer_200)) fresh_world ''http://backend/x'' ''XML'' []
         (test_request [] ''1'')))) = [''<float64>1</float64>'']"
proof -
  let ?E = "test_env (Inr answer_200)"
  let ?r = "test_request [] ''1''"
  have a: "''XML'' = ''JSON'' \<or> ''XML'' = ''XML''"
    by simp
  have b: "requestPreprocessing ?E (origin_headers ?r (wr fresh_world)) ?r = (fresh_writer, None)"
    by (simp add: test_env_def origin_headers_def Header_Get_def test_request_def fresh_world_def)
  have c: "ReadAll_LimitReader ?r (MaxRequestSize ?E) = (''1'', None)"
    by (simp add: ReadAll_LimitReader_def test_env_def test_request_def)
  have d: "r_Close_err ?r = None"
    by (simp add: test_request_def)
  have e: "json_Unmarshal ?E ''1'' = (GInt 1, None)"
    by (simp add: test_env_def test_json_Unmarshal_def)
  have "map q_Body (sent (snd (PUT ?E fresh_world ''http://backend/x'' ''XML'' [] ?r)))
          = [''<float64>1</float64>'']"
    unfolding inbound_body_decoded_as_json [OF a b c d e]
    by (simp add: xmlPUT_sent xmlPUT_request_def Let_def test_env_def test_xml_Marshal_def fresh_world_def)
  with a b c d e show ?thesis by blast
qed

text \<open>Claim C2 as stated fails: under \<open>XML\<close> a body that the XML decoder accepts is refused
  with the error of the JSON decoder, and nothing reaches the backend.\<close>

theorem xml_body_decoded_with_xml_decoder_counterexample:
  "xml_Unmarshal (test_env (Inr answer_200)) ''<a>1</a>'' = (GNil, None)
   \<and> sent (snd (PUT (test_env (Inr answer_200)) fresh_world ''http://backend/x'' ''XML'' []
         (test_request [] ''<a>1</a>''))) = []
   \<and> logs (snd (PUT (test_env (Inr answer_200)) fresh_world ''http://backend/x'' ''XML'' []
         (test_request [] ''<a>1</a>'')))
       = [LogMsg ERR ''invalid character '<' looking for beginning of value'']"
  by (simp add: model_defs test_defs)

subsection \<open>The ceiling on the inbound body\<close>

lemma ReadAll_LimitReader_length:
  "length (fst (ReadAll_LimitReader r n)) \<le> nat n"
  by (auto simp: ReadAll_LimitReader_def)

lemma ReadAll_LimitReader_take:
  "ReadAll_LimitReader r n = (content, None) \<Longrightarrow> content = take (nat n) (r_Body r)"
  by (auto simp: ReadAll_LimitReader_def split: if_splits)

lemma jsonPUT_req_consumed [simp]:
  "req_consumed (snd (jsonPUT env r s url token data)) = req_consumed s"
  by (simp add: jsonPUT_def Let_def split: sum.splits option.splits prod.splits)

lemma xmlPUT_req_consumed [simp]:
  "req_consumed (snd (xmlPUT env r s url token data)) = req_consumed s"
  by (simp add: xmlPUT_def Let_def split: sum.splits option.splits prod.splits)

lemma rawPUT_relay_req_consumed [simp]:
  "req_consumed (snd (rawPUT_relay env resp s)) = req_consumed s"
  by (simp add: rawPUT_relay_def Let_def split: option.splits prod.splits)

lemma rawPUT_req_consumed:
  "req_consumed (snd (rawPUT env r s url token)) =
     Some (length (fst (ReadAll_LimitReader r (MaxFileUploadSize env))))"
  by (simp add: rawPUT_def Let_def split: sum.splits option.splits prod.splits)

lemma PUT_req_consumed:
  assumes "requestPreprocessing env (origin_headers r (wr s)) r = (w1, None)"
    and "req_consumed (snd (PUT env s url format token r)) = Some n"
    and "req_consumed s = None"
  shows "n \<le> nat (if format = ''RAW'' then MaxFileUploadSize env else MaxRequestSize env)"
proof (cases "format = ''RAW''")
  case True
  with assms show ?thesis
    using ReadAll_LimitReader_length [of r "MaxFileUploadSize env"]
    by (simp add: PUT_after_preprocessing rawPUT_req_consumed)
next
  case False
  have "length (fst (ReadAll_LimitReader r (MaxRequestSize env))) \<le> nat (MaxRequestSize env)"
    by (rule ReadAll_LimitReader_length)
  with False assms show ?thesis
    by (auto simp: PUT_after_preprocessing split: if_splits prod.splits option.splits)
qed

lemma PUT_sent_raw:
  assumes "requestPreprocessing env (origin_headers r (wr s)) r = (w1, None)"
    and "q \<in> set (sent (snd (PUT env s url ''RAW'' token r)))" and "q \<notin> set (sent s)"
  shows "q_Body q = take (nat (MaxFileUploadSize env)) (r_Body r)"
proof (cases "ReadAll_LimitReader r (MaxFileUploadSize env)")
  case (Pair content e)
  with assms have "e = None" and "q = rawPUT_request r url token content"
    by (auto simp: PUT_after_preprocessing rawPUT_sent split: option.splits if_splits)
  with Pair ReadAll_LimitReader_take [of r "MaxFileUploadSize env" content]
  show ?thesis by (simp add: rawPUT_request_def Let_def)
qed

lemma PUT_sent_structured:
  assumes "requestPreprocessing env (origin_headers r (wr s)) r = (w1, None)"
    and "format \<noteq> ''RAW''"
    and "q \<in> set (sent (snd (PUT env s url format token r)))" and "q \<notin> set (sent s)"
  shows "snd (json_Unmarshal env (take (nat (MaxRequestSize env)) (r_Body r))) = None
       \<and> (if format = ''XML''
          then xml_Marshal env (fst (json_Unmarshal env (take (nat (MaxRequestSize env)) (r_Body r))))
          else json_Marshal env (fst (json_Unmarshal env (take (nat (MaxRequestSize env)) (r_Body r)))))
         = Inr (q_Body q)"
proof (cases "ReadAll_LimitReader r (MaxRequestSize env)")
  case (Pair content e)
  show ?thesis
  proof (cases "json_Unmarshal env content")
    case (Pair data ue)
    from assms \<open>ReadAll_LimitReader r (MaxRequestSize env) = (content, e)\<close> Pair
    have e: "e = None" and ue: "ue = None"
      and q: "q \<in> set (sent (snd ((if format = ''XML'' then xmlPUT else jsonPUT) env r
                (s\<lparr>wr := w1, req_consumed := Some (length content), req_closed := True\<rparr>) url token data)))"
      by (auto simp: PUT_after_preprocessing split: option.splits if_splits)
    from e \<open>ReadAll_LimitReader r (MaxRequestSize env) = (content, e)\<close>
    have content: "content = take (nat (MaxRequestSize env)) (r_Body r)"
      by (simp add: ReadAll_LimitReader_take)
    from q assms(4) have "(if format = ''XML'' then xml_Marshal env data else json_Marshal env data) = Inr (q_Body q)"
      by (auto simp: xmlPUT_sent jsonPUT_sent xmlPUT_request_def jsonPUT_request_def Let_def
            split: sum.splits if_splits)
    with Pair ue content show ?thesis by auto
  qed
qed

text \<open>Claim C8, as amended. The handler reads at most \<open>MaxFileUploadSize\<close> bytes of the inbound
  body under \<open>RAW\<close> and at most \<open>MaxRequestSize\<close> under the other formats. Under \<open>RAW\<close> the bytes
  sent to the backend are the body cut at the ceiling. Under \<open>JSON\<close> and \<open>XML\<close> a request goes
  to the backend only when the body cut at the ceiling decodes as JSON, and what is sent is
  the re-encoding of the decoded value in the format of the pipeline.\<close>

theorem inbound_read_bounded:
  assumes "requestPreprocessing env (origin_headers r (wr s)) r = (w1, None)"
    and "req_consumed s = None"
  shows "(\<forall>n. req_consumed (snd (PUT env s url format token r)) = Some n \<longrightarrow>
            n \<le> nat (if format = ''RAW'' then MaxFileUploadSize env else MaxRequestSize env))
       \<and> (\<forall>q. q \<in> set (sent (snd (PUT env s url format token r))) \<and> q \<notin> set (sent s) \<longrightarrow>
            (if format = ''RAW'' then q_Body q = take (nat (MaxFileUploadSize env)) (r_Body r)
             else snd (json_Unmarshal env (take (nat (MaxRequestSize env)) (r_Body r))) = None
                \<and> (if format = ''XML''
                   then xml_Marshal env (fst (json_Unmarshal env (take (nat (MaxRequestSize env)) (r_Body r))))
                   else json_Marshal env (fst (json_Unmarshal env (take (nat (MaxRequestSize env)) (r_Body r)))))
                  = Inr (q_Body q)))"
proof (intro conjI allI impI)
  fix n
  assume "req_consumed (snd (PUT env s url format token r)) = Some n"
  then show "n \<le> nat (if format = ''RAW'' then MaxFileUploadSize env else MaxRequestSize env)"
    by (rule PUT_req_consumed [OF assms(1) _ assms(2)])
next
  fix q
  assume q: "q \<in> set (sent (snd (PUT env s url format token r))) \<and> q \<notin> set (sent s)"
  show "if format = ''RAW'' then q_Body q = take (nat (MaxFileUploadSize env)) (r_Body r)
        else snd (json_Unmarshal env (take (nat (MaxRequestSize env)) (r_Body r))) = None
           \<and> (if format = ''XML''
              then xml_Marshal env (fst (json_Unmarshal env (take (nat (MaxRequestSize env)) (r_Body r))))
              else json_Marshal env (fst (json_Unmarshal env (take (nat (MaxRequestSize env)) (r_Body r)))))
             = Inr (q_Body q)"
  proof (cases "format = ''RAW''")
    case True
    with q PUT_sent_raw [OF assms(1), of q url token] show ?thesis by simp
  next
    case False
    with q PUT_sent_structured [OF assms(1) False, of q url token] show ?thesis by simp
  qed
qed

theorem inbound_read_bounded_witness:
  "requestPreprocessing tiny_env (origin_headers (test_request [] ''abcdefgh'') (wr fresh_world))
       (test_request [] ''abcdefgh'') = (fresh_writer, None)
   \<and> req_consumed fresh_world = None
   \<and> req_consumed (snd (PUT tiny_env fresh_world ''http://backend/x'' ''RAW'' [] (test_request [] ''abcdefgh'')))
       = Some 4
   \<and> (4::nat) \<le> nat (MaxFileUploadSize tiny_env)
   \<and> rawPUT_request (test_request [] ''abcdefgh'') ''http://backend/x'' [] ''abcd''
       \<in> set (sent (snd (PUT tiny_env fresh_world ''http://backend/x'' ''RAW'' [] (test_request [] ''abcdefgh''))))
   \<and> rawPUT_request (test_request [] ''abcdefgh'') ''http://backend/x'' [] ''abcd'' \<notin> set (sent fresh_world)
   \<and> q_Body (rawPUT_request (test_request [] ''abcdefgh'') ''http://backend/x'' [] ''abcd'')
       = take (nat (MaxFileUploadSize tiny_env)) (r_Body (test_request [] ''abcdefgh''))"
proof -
  let ?r = "test_request [] ''abcdefgh''"
  let ?q = "rawPUT_request ?r ''http://backend/x'' [] ''abcd''"
  let ?P = "PUT tiny_env fresh_world ''http://backend/x'' ''RAW'' [] ?r"
  have a: "requestPreprocessing tiny_env (origin_headers ?r (wr fresh_world)) ?r = (fresh_writer, None)"
    by (simp add: test_env_def origin_headers_def Header_Get_def test_request_def fresh_world_def)
  have b: "req_consumed fresh_world = None"
    by (simp add: fresh_world_def)
  have c: "req_consumed (snd ?P) = Some 4"
    unfolding PUT_after_preprocessing [OF a]
    by (simp add: rawPUT_req_consumed ReadAll_LimitReader_def test_env_def test_request_def)
  have d: "?q \<in> set (sent (snd ?P))"
    unfolding PUT_after_preprocessing [OF a]
    by (simp add: rawPUT_sent ReadAll_LimitReader_def test_env_def test_request_def fresh_world_def)
  have e: "?q \<notin> set (sent fresh_world)"
    by (simp add: fresh_world_def)
  from inbound_read_bounded [OF a b, where url = "''http://backend/x''" and format = "''RAW''"
      and token = "[]"] c d e
  have "(4::nat) \<le> nat (MaxFileUploadSize tiny_env)
      \<and> q_Body ?q = take (nat (MaxFileUploadSize tiny_env)) (r_Body ?r)"
    by force
  with a b c d e show ?thesis by blast
qed

text \<open>Claim C8 as stated fails twice under a ceiling of 4 bytes: under \<open>JSON\<close> the body
  \<open>[1,2,3]\<close> is cut to \<open>[1,2\<close>, which does not decode, and the call is refused with nothing
  forwarded; under \<open>XML\<close> the one byte \<open>1\<close> is forwarded as twenty.\<close>

theorem forwarded_body_within_ceiling_counterexample:
  "req_consumed (snd (PUT tiny_env fresh_world ''http://backend/x'' ''JSON'' [] (test_request [] ''[1,2,3]'')))
     = Some 4
   \<and> sent (snd (PUT tiny_env fresh_world ''http://backend/x'' ''JSON'' [] (test_request [] ''[1,2,3]''))) = []
   \<and> logs (snd (PUT tiny_env fresh_world ''http://backend/x'' ''JSON'' [] (test_request [] ''[1,2,3]'')))
     = [LogMsg ERR ''unexpected end of JSON input'']
   \<and> map q_Body (sent (snd (PUT tiny_env fresh_world ''http://backend/x'' ''XML'' [] (test_request [] ''1''))))
     = [''<float64>1</float64>'']
   \<and> nat (MaxRequestSize tiny_env) < length ''<float64>1</float64>''"
  by (simp add: model_defs test_defs)

subsection \<open>One status line per call\<close>

lemma send_status_committed [simp]: "committed (send_status code w)"
  by (simp add: committed_def send_status_def)

lemma Write_committed [simp]: "committed (fst (Write b w))"
  by (simp add: committed_def Write_status split: option.splits)


lemma invalidPUT_committed [simp]:
  "notify_keeps_status env \<Longrightarrow> committed (wr (snd (invalidPUT env s err)))"
  by (simp add: committed_def invalidPUT_commits)

lemma unsuccessfulPUT_committed [simp]:
  assumes "notify_keeps_status env" and "committed (wr s)"
  shows "committed (wr (unsuccessfulPUT env s format content err))"
proof -
  from assms(2) obtain c where "status (wr s) = Some c"
    by (auto simp: committed_def)
  with assms(1) show ?thesis
    by (simp add: committed_def unsuccessfulPUT_status_keep)
qed








subsection \<open>Where the code departs from its own pattern\<close>

text \<open>Claim C3 fails on the code: \<open>xmlPUT\<close> sets \<open>Content-Type\<close> before it copies the inbound
  headers, so an inbound \<open>Content-Type\<close> reaches the backend in place of \<open>XMLHeader\<close>;
  \<open>jsonPUT\<close> copies first and sets afterwards.\<close>

theorem xml_content_type_is_the_inbound_one:
  "map (\<lambda>q. q_Header q ''Content-Type'')
     (sent (snd (PUT (test_env (Inr answer_200)) fresh_world ''http://backend/x'' ''XML'' []
        (test_request [(''Content-Type'', [''application/json''])] ''1''))))
     = [Some [''application/json'']]
   \<and> XMLHeader (test_env (Inr answer_200)) = ''application/xml; charset=UTF-8''
   \<and> map (\<lambda>q. q_Header q ''Content-Type'')
     (sent (snd (PUT (test_env (Inr answer_200)) fresh_world ''http://backend/x'' ''JSON'' []
        (test_request [(''Content-Type'', [''text/plain''])] ''1''))))
     = [Some [''application/json; charset=UTF-8'']]"
  by (simp add: model_defs test_defs)

text \<open>Claim C5 fails on the code: in \<open>jsonPUT\<close> and \<open>xmlPUT\<close> the \<open>defer resp.Body.Close()\<close>
  comes after the returns of the 302 and the non-200 branches, which leave the body of the
  backend response open; \<open>rawPUT\<close> closes it on its non-200 path.\<close>

theorem backend_body_left_open:
  "length (sent (snd (PUT (test_env (Inr answer_302)) fresh_world ''http://backend/x'' ''JSON'' []
        (test_request [] ''1'')))) = 1
   \<and> status (wr (snd (PUT (test_env (Inr answer_302)) fresh_world ''http://backend/x'' ''JSON'' []
        (test_request [] ''1'')))) = Some 302
   \<and> \<not> resp_closed (snd (PUT (test_env (Inr answer_302)) fresh_world ''http://backend/x'' ''JSON'' []
        (test_request [] ''1'')))
   \<and> resp_read (snd (PUT (test_env (Inr answer_500)) fresh_world ''http://backend/x'' ''XML'' []
        (test_request [] ''1'')))
   \<and> \<not> resp_closed (snd (PUT (test_env (Inr answer_500)) fresh_world ''http://backend/x'' ''XML'' []
        (test_request [] ''1'')))
   \<and> resp_closed (snd (PUT (test_env (Inr answer_500)) fresh_world ''http://backend/x'' ''RAW'' []
        (test_request [] ''1'')))"
  by (simp add: model_defs test_defs)

text \<open>Claim C10 fails on the code: the third key of the object that \<open>invalidPUT\<close> encodes is
  spelled \<open>Specfically\<close>.\<close>

theorem error_object_key_misspelled:
  "invalidPUT_data (Some (Error ''Unsupported data encoding''))
     = GObj [(''Code'', GInt 422), (''Text'', GStr ''Unprocessable Entity''),
             (''Specfically'', GErr (Error ''Unsupported data encoding''))]
   \<and> status (wr (snd (PUT (test_env (Inr answer_200)) fresh_world ''http://backend/x'' ''YAML'' []
         (test_request [] ''a: 1'')))) = Some 422
   \<and> body (wr (snd (PUT (test_env (Inr answer_200)) fresh_world ''http://backend/x'' ''YAML'' []
         (test_request [] ''a: 1''))))
       = ''{'' @ quoted ''Code'' @ '':422,'' @ quoted ''Specfically'' @ '':{},'' @ quoted ''Text'' @ '':''
           @ quoted ''Unprocessable Entity'' @ ''}'' @ [CHR 0x0A]"
  by (simp add: model_defs test_defs)

end
